theory Spec2Isabelle
  imports Main "HOL-Library.Word"
begin

unbundle bit_operations_syntax

section \<open>The book record (types.ts)\<close>

text \<open>
  \<^verbatim>\<open>status: 'wantToRead' | 'reading' | 'completed'\<close> is a datatype, and
  \<^verbatim>\<open>coverImage?: string | null\<close> is an optional value of a type that has \<^verbatim>\<open>null\<close>.
  An optional field \<^verbatim>\<open>f?: T\<close> is a \<open>T option\<close>, \<open>None\<close> for \<^verbatim>\<open>undefined\<close>.
  The TypeScript type \<^verbatim>\<open>number\<close> of \<^verbatim>\<open>pageCount\<close>, \<^verbatim>\<open>currentPage\<close> and \<^verbatim>\<open>rating\<close> is
  modelled by \<open>int\<close>: the integers the screens produce with \<^verbatim>\<open>parseInt\<close>; fractions, NaN
  and the infinities are left out.

  \<^verbatim>\<open>Book\<close> and \<^verbatim>\<open>BookFormData = Omit<Book, 'id'> & { id?: string }\<close> differ in the type
  of \<^verbatim>\<open>id\<close> only, so the record takes that type as a parameter. The field is called
  \<open>id_book\<close>, since \<open>id\<close> is the identity function of HOL; \<^verbatim>\<open>notes\<close> is \<open>notes_book\<close>, since
  \<open>notes\<close> is a keyword of Isabelle.
\<close>

datatype status = WantToRead | Reading | Completed

datatype cover = Null | Uri string

record 'i BookOf =
  id_book :: 'i
  title :: string
  author :: string
  genre :: "string option"
  publicationDate :: "string option"
  pageCount :: "int option"
  coverImage :: "cover option"
  status :: status
  currentPage :: "int option"
  startDate :: "string option"
  endDate :: "string option"
  isbn :: "string option"
  publisher :: "string option"
  language :: "string option"
  notes_book :: "string option"
  rating :: "int option"

type_synonym Book = "string BookOf"

type_synonym BookFormData = "string option BookOf"

section \<open>JavaScript operators the store uses\<close>

text \<open>
  \<^verbatim>\<open>!s\<close> and \<^verbatim>\<open>s || d\<close> on an optional string: \<^verbatim>\<open>undefined\<close> and the empty string are
  falsy. \<^verbatim>\<open>n || d\<close> on an optional number: \<^verbatim>\<open>undefined\<close> and \<^verbatim>\<open>0\<close> are falsy.
\<close>

definition truthy :: "string option \<Rightarrow> bool" where
  "truthy s = (case s of None \<Rightarrow> False | Some v \<Rightarrow> v \<noteq> [])"

definition or_string :: "string option \<Rightarrow> string \<Rightarrow> string" where
  "or_string s d = (case s of None \<Rightarrow> d | Some v \<Rightarrow> if v \<noteq> [] then v else d)"

definition or_number :: "int option \<Rightarrow> int \<Rightarrow> int" where
  "or_number n d = (case n of None \<Rightarrow> d | Some v \<Rightarrow> if v \<noteq> 0 then v else d)"

section \<open>generateUUID\<close>

text \<open>
  \<^verbatim>\<open>'xxxxxxxx-xxxx-4xxx-yxxx-xxxxxxxxxxxx'.replace(/[xy]/g, function(c) {
    const r = Math.random() * 16 | 0;
    const v = c === 'x' ? r : (r & 0x3 | 0x8);
    return v.toString(16); })\<close>

  \<^verbatim>\<open>Math.random()\<close> lies in \<open>[0, 1)\<close>, so each \<^verbatim>\<open>r\<close> is a 4-bit value; the random
  source is the sequence \<open>rnd\<close> of these values, \<open>rnd k\<close> for the \<open>k\<close>-th match of the
  regular expression. \<open>toString16\<close> is \<^verbatim>\<open>v.toString(16)\<close> on such a value.
\<close>

definition toString16 :: "4 word \<Rightarrow> char" where
  "toString16 v = ''0123456789abcdef'' ! unat v"

fun replace_xy :: "string \<Rightarrow> (nat \<Rightarrow> 4 word) \<Rightarrow> nat \<Rightarrow> string" where
  "replace_xy [] rnd k = []"
| "replace_xy (c # cs) rnd k =
     (if c = CHR ''x'' \<or> c = CHR ''y'' then
        (let r = rnd k;
             v = (if c = CHR ''x'' then r else (r AND 0x3) OR 0x8)
         in toString16 v # replace_xy cs rnd (Suc k))
      else c # replace_xy cs rnd k)"

definition generateUUID :: "(nat \<Rightarrow> 4 word) \<Rightarrow> string" where
  "generateUUID rnd = replace_xy ''xxxxxxxx-xxxx-4xxx-yxxx-xxxxxxxxxxxx'' rnd 0"

section \<open>The collection store (BookProvider)\<close>

text \<open>
  The functions of the provider are closures over \<^verbatim>\<open>books\<close>, the value of the state
  in the render that created them; \<^verbatim>\<open>setBooks(v)\<close> replaces the value the next render
  will see. Every operation therefore takes the captured \<open>books\<close> first and threads the
  pending value of the state cell as its last argument, returning it with the outcome:
  \<open>Inl\<close> an error thrown, \<open>Inr\<close> the value the promise resolves to. A call made from a
  settled render passes \<open>books\<close> for both.

  \<^verbatim>\<open>new Date().toISOString().split('T')[0]\<close> reads the clock, and every read is a
  parameter of its own. \<^verbatim>\<open>updateBookStatus\<close> reads it at most once in a call, since its two
  stamping branches exclude each other: that is \<open>today\<close>. \<^verbatim>\<open>updateBookProgress\<close> reads it
  up to three times: in the nested \<^verbatim>\<open>updateBookStatus\<close> (\<open>todayStatus\<close>), for \<^verbatim>\<open>startDate\<close>
  (\<open>todayStart\<close>) and for \<^verbatim>\<open>endDate\<close> (\<open>todayEnd\<close>).
\<close>

datatype error = Error string

type_synonym 'a outcome = "(error + 'a) \<times> Book list"

definition setBooks :: "Book list \<Rightarrow> Book list \<Rightarrow> Book list" where
  "setBooks v pending = v"

definition getBook :: "Book list \<Rightarrow> string \<Rightarrow> Book option" where
  "getBook books i = find (\<lambda>book. id_book book = i) books"

text \<open>\<^verbatim>\<open>{ ...bookData, id: bookData.id || generateUUID() }\<close>\<close>

definition newBook :: "BookFormData \<Rightarrow> (nat \<Rightarrow> 4 word) \<Rightarrow> Book" where
  "newBook bookData rnd =
     \<lparr> id_book = or_string (id_book bookData) (generateUUID rnd),
       title = title bookData,
       author = author bookData,
       genre = genre bookData,
       publicationDate = publicationDate bookData,
       pageCount = pageCount bookData,
       coverImage = coverImage bookData,
       status = status bookData,
       currentPage = currentPage bookData,
       startDate = startDate bookData,
       endDate = endDate bookData,
       isbn = isbn bookData,
       publisher = publisher bookData,
       language = language bookData,
       notes_book = notes_book bookData,
       rating = rating bookData \<rparr>"

definition addBook :: "Book list \<Rightarrow> BookFormData \<Rightarrow> (nat \<Rightarrow> 4 word) \<Rightarrow> Book list \<Rightarrow> Book outcome" where
  "addBook books bookData rnd pending =
     (let updatedBooks = books @ [newBook bookData rnd]
      in (Inr (newBook bookData rnd), setBooks updatedBooks pending))"

definition updateBook :: "Book list \<Rightarrow> Book \<Rightarrow> Book list \<Rightarrow> Book outcome" where
  "updateBook books updatedBook pending =
     (let updatedBooks = map (\<lambda>book. if id_book book = id_book updatedBook then updatedBook else book) books
      in (Inr updatedBook, setBooks updatedBooks pending))"

definition deleteBook :: "Book list \<Rightarrow> string \<Rightarrow> Book list \<Rightarrow> unit outcome" where
  "deleteBook books i pending =
     (let updatedBooks = filter (\<lambda>book. id_book book \<noteq> i) books
      in (Inr (), setBooks updatedBooks pending))"

definition notFound :: "string \<Rightarrow> error" where
  "notFound i = Error (''Book with id '' @ i @ '' not found'')"

definition updateBookStatus ::
  "Book list \<Rightarrow> string \<Rightarrow> status \<Rightarrow> string option \<Rightarrow> string \<Rightarrow> Book list \<Rightarrow> Book outcome" where
  "updateBookStatus books i st endDateArg today pending =
     (case getBook books i of
        None \<Rightarrow> (Inl (notFound i), pending)
      | Some bookToUpdate \<Rightarrow>
          (let b1 = bookToUpdate\<lparr>status := st\<rparr>;
               b2 = (if st = Reading \<and> \<not> truthy (startDate bookToUpdate)
                     then b1\<lparr>startDate := Some today\<rparr> else b1);
               updatedBook = (if st = Completed
                     then b2\<lparr>endDate := Some (or_string endDateArg today)\<rparr> else b2)
           in updateBook books updatedBook pending))"

definition updateBookProgress ::
  "Book list \<Rightarrow> string \<Rightarrow> int \<Rightarrow> string \<Rightarrow> string \<Rightarrow> string \<Rightarrow> Book list \<Rightarrow> Book outcome" where
  "updateBookProgress books i page todayStatus todayStart todayEnd pending =
     (case getBook books i of
        None \<Rightarrow> (Inl (notFound i), pending)
      | Some bookToUpdate \<Rightarrow>
          (let (r, pending1) =
                 (if status bookToUpdate \<noteq> Reading
                  then updateBookStatus books i Reading None todayStatus pending
                  else (Inr bookToUpdate, pending))
           in case r of
                Inl e \<Rightarrow> (Inl e, pending1)
              | Inr _ \<Rightarrow>
                 (let b1 = bookToUpdate\<lparr>currentPage := Some page, status := Reading\<rparr>;
                      b2 = (if truthy (startDate bookToUpdate) then b1
                            else b1\<lparr>startDate := Some todayStart\<rparr>);
                      updatedBook = (if page \<ge> or_number (pageCount bookToUpdate) 0
                            then b2\<lparr>status := Completed, endDate := Some todayEnd\<rparr> else b2)
                  in updateBook books updatedBook pending1)))"

subsection \<open>The built-in sample set (INITIAL_BOOKS)\<close>

definition gatsby :: Book where
  "gatsby =
     \<lparr> id_book = ''1'',
       title = ''The Great Gatsby'',
       author = ''F. Scott Fitzgerald'',
       genre = Some ''Classic Fiction'',
       publicationDate = Some ''1925-04-10'',
       pageCount = Some 180,
       coverImage = Some Null,
       status = Completed,
       currentPage = None,
       startDate = Some ''2023-01-15'',
       endDate = Some ''2023-01-30'',
       isbn = Some ''9780743273565'',
       publisher = Some ''Scribner'',
       language = Some ''English'',
       notes_book = Some ''A classic American novel about wealth, love, and the American Dream in the Roaring Twenties.'',
       rating = Some 4 \<rparr>"

definition mockingbird :: Book where
  "mockingbird =
     \<lparr> id_book = ''2'',
       title = ''To Kill a Mockingbird'',
       author = ''Harper Lee'',
       genre = Some ''Classic Fiction'',
       publicationDate = Some ''1960-07-11'',
       pageCount = Some 281,
       coverImage = Some Null,
       status = Reading,
       currentPage = Some 120,
       startDate = Some ''2023-02-15'',
       endDate = None,
       isbn = Some ''9780061120084'',
       publisher = Some ''HarperPerennial Modern Classics'',
       language = Some ''English'',
       notes_book = None,
       rating = None \<rparr>"

definition orwell1984 :: Book where
  "orwell1984 =
     \<lparr> id_book = ''3'',
       title = ''1984'',
       author = ''George Orwell'',
       genre = Some ''Dystopian Fiction'',
       publicationDate = Some ''1949-06-08'',
       pageCount = Some 328,
       coverImage = Some Null,
       status = WantToRead,
       currentPage = None,
       startDate = None,
       endDate = None,
       isbn = Some ''9780451524935'',
       publisher = Some ''Signet Classic'',
       language = Some ''English'',
       notes_book = None,
       rating = None \<rparr>"

definition INITIAL_BOOKS :: "Book list" where
  "INITIAL_BOOKS = [gatsby, mockingbird, orwell1984]"

text \<open>
  A form as the add screen builds it: no \<^verbatim>\<open>id\<close>, no \<^verbatim>\<open>pageCount\<close>; and the same form
  with the \<^verbatim>\<open>id\<close> of a record of the sample set, which the type \<^verbatim>\<open>BookFormData\<close> allows.
\<close>

definition dune :: BookFormData where
  "dune =
     \<lparr> id_book = None,
       title = ''Dune'',
       author = ''Herbert'',
       genre = None,
       publicationDate = None,
       pageCount = None,
       coverImage = None,
       status = WantToRead,
       currentPage = None,
       startDate = None,
       endDate = None,
       isbn = None,
       publisher = None,
       language = None,
       notes_book = None,
       rating = None \<rparr>"

definition dune_as_1 :: BookFormData where
  "dune_as_1 = dune\<lparr>id_book := Some ''1''\<rparr>"

definition zeros :: "nat \<Rightarrow> 4 word" where
  "zeros k = 0"

text \<open>
  The sample set after \<^verbatim>\<open>addBook\<close> of that second form: a collection the store reaches
  from its seed, with two records under the identifier 1. And the first sample record
  with a new rating, as the edit screen passes it to \<^verbatim>\<open>updateBook\<close>.
\<close>

definition twice :: "Book list" where
  "twice = snd (addBook INITIAL_BOOKS dune_as_1 zeros INITIAL_BOOKS)"

definition gatsby_rated :: Book where
  "gatsby_rated = gatsby\<lparr>rating := Some 5\<rparr>"

section \<open>Lookup and replacement\<close>

lemma getBook_None_iff: "getBook books i = None \<longleftrightarrow> i \<notin> id_book ` set books"
  by (auto simp: getBook_def find_None_iff)

lemma getBook_Some_id: "getBook books i = Some b \<Longrightarrow> id_book b = i"
  by (auto simp: getBook_def find_Some_iff)

lemma getBook_Some_mem: "getBook books i = Some b \<Longrightarrow> b \<in> set books"
  by (auto simp: getBook_def find_Some_iff)

text \<open>
  \<^verbatim>\<open>find\<close> returns the first record under the identifier. Where the identifiers are
  pairwise distinct every record is the one found under its own identifier.
\<close>

lemma getBook_distinct_mem:
  "distinct (map id_book books) \<Longrightarrow> b \<in> set books \<Longrightarrow> getBook books (id_book b) = Some b"
  by (induction books) (auto simp: getBook_def)

lemma map_replace_ids:
  "map id_book (map (\<lambda>book. if id_book book = id_book u then u else book) books) = map id_book books"
  by (induction books) auto

lemma map_replace_absent:
  "getBook books (id_book u) = None \<Longrightarrow>
   map (\<lambda>book. if id_book book = id_book u then u else book) books = books"
  by (induction books) (auto simp: getBook_def split: if_splits)

lemma getBook_map_replace:
  "getBook books (id_book u) = Some b \<Longrightarrow>
   getBook (map (\<lambda>book. if id_book book = id_book u then u else book) books) (id_book u) = Some u"
  by (induction books) (auto simp: getBook_def split: if_splits)

lemma getBook_filter_None: "getBook (filter (\<lambda>book. id_book book \<noteq> i) books) i = None"
  by (auto simp: getBook_None_iff)

lemma filter_absent:
  "i \<notin> id_book ` set books \<Longrightarrow> filter (\<lambda>book. id_book book \<noteq> i) books = books"
  by (induction books) auto

lemma length_filter_distinct:
  "distinct (map id_book books) \<Longrightarrow> i \<in> id_book ` set books \<Longrightarrow>
   length (filter (\<lambda>book. id_book book \<noteq> i) books) + 1 = length books"
  by (induction books) (auto simp: filter_absent)

lemma updateBook_fst: "fst (updateBook books u pending) = Inr u"
  by (simp add: updateBook_def)

lemma updateBook_snd:
  "snd (updateBook books u pending) = map (\<lambda>book. if id_book book = id_book u then u else book) books"
  by (simp add: updateBook_def setBooks_def)

lemma generateUUID_nonempty: "generateUUID rnd \<noteq> []"
  by (simp add: generateUUID_def)

lemma or_string_nonempty: "d \<noteq> [] \<Longrightarrow> or_string s d \<noteq> []"
  by (auto simp: or_string_def split: option.splits)

lemma generateUUID_zeros: "generateUUID zeros = ''00000000-0000-4000-8000-000000000000''"
  by (simp add: generateUUID_def zeros_def toString16_def)

lemmas sample_defs = INITIAL_BOOKS_def gatsby_def mockingbird_def orwell1984_def

lemma newBook_dune_id: "id_book (newBook dune zeros) = ''00000000-0000-4000-8000-000000000000''"
  by (simp add: newBook_def dune_def or_string_def generateUUID_zeros)

lemma newBook_dune_as_1_id: "id_book (newBook dune_as_1 zeros) = ''1''"
  by (simp add: newBook_def dune_as_1_def dune_def or_string_def)

lemma newBook_id_nonempty: "id_book (newBook d rnd) \<noteq> []"
  by (simp add: newBook_def or_string_nonempty generateUUID_nonempty)

lemma addBook_eq: "addBook books d rnd pending = (Inr (newBook d rnd), books @ [newBook d rnd])"
  by (simp add: addBook_def setBooks_def Let_def)

lemma twice_eq: "twice = INITIAL_BOOKS @ [newBook dune_as_1 zeros]"
  by (simp add: twice_def addBook_eq)

lemma getBook_append_absent:
  "getBook books (id_book b) = None \<Longrightarrow> getBook (books @ [b]) (id_book b) = Some b"
  by (induction books) (auto simp: getBook_def split: if_splits)

lemma getBook_updateBook:
  "getBook books i = Some b \<Longrightarrow> id_book u = i \<Longrightarrow> getBook (snd (updateBook books u pending)) i = Some u"
  unfolding updateBook_snd using getBook_map_replace [of books u b] by simp

text \<open>
  What the two transition functions hand to \<^verbatim>\<open>updateBook\<close> once the record is found. In
  \<^verbatim>\<open>updateBookProgress\<close> the nested \<^verbatim>\<open>updateBookStatus(id, 'reading')\<close> leaves no trace:
  \<^verbatim>\<open>updateBook\<close> maps over the captured \<^verbatim>\<open>books\<close> and its \<^verbatim>\<open>setBooks\<close> replaces whatever
  the nested call had set.
\<close>

lemma updateBookStatus_reading_found:
  "getBook books i = Some b \<Longrightarrow>
   updateBookStatus books i Reading e today pending =
     updateBook books (if truthy (startDate b) then b\<lparr>status := Reading\<rparr>
                       else b\<lparr>status := Reading, startDate := Some today\<rparr>) pending"
  by (simp add: updateBookStatus_def)

lemma updateBookProgress_found:
  "getBook books i = Some b \<Longrightarrow>
   updateBookProgress books i page todayStatus todayStart todayEnd pending =
     updateBook books
       (let b2 = (if truthy (startDate b) then b\<lparr>currentPage := Some page, status := Reading\<rparr>
                  else b\<lparr>currentPage := Some page, status := Reading, startDate := Some todayStart\<rparr>)
        in if page \<ge> or_number (pageCount b) 0
           then b2\<lparr>status := Completed, endDate := Some todayEnd\<rparr> else b2) pending"
  by (simp add: updateBookProgress_def updateBookStatus_reading_found updateBook_def setBooks_def Let_def)

lemma ids_updateBook: "map id_book (snd (updateBook books u pending)) = map id_book books"
  by (simp add: updateBook_snd map_replace_ids)

lemma ids_updateBookStatus:
  "map id_book (snd (updateBookStatus books i st e today books)) = map id_book books"
  by (simp add: updateBookStatus_def Let_def ids_updateBook split: option.splits)

lemma ids_updateBookProgress:
  "map id_book (snd (updateBookProgress books i page todayStatus todayStart todayEnd books)) = map id_book books"
proof (cases "getBook books i")
  case None
  then show ?thesis by (simp add: updateBookProgress_def)
next
  case (Some b)
  show ?thesis unfolding updateBookProgress_found [OF Some] by (rule ids_updateBook)
qed

lemma map_replace_distinct:
  "distinct (map id_book (books :: Book list)) \<Longrightarrow> k < length books \<Longrightarrow> id_book (books ! k) = id_book u \<Longrightarrow>
   map (\<lambda>book. if id_book book = id_book u then u else book) books = books[k := u]"
proof (induction books arbitrary: k)
  case Nil
  then show ?case by simp
next
  case (Cons a books)
  show ?case
  proof (cases k)
    case 0
    with Cons.prems have "getBook books (id_book u) = None"
      by (auto simp: getBook_None_iff)
    then show ?thesis using 0 Cons.prems by (simp add: map_replace_absent)
  next
    case (Suc j)
    with Cons.prems have "id_book a \<noteq> id_book u"
      by (auto simp: image_iff) (metis nth_mem)
    then show ?thesis using Suc Cons by simp
  qed
qed

section \<open>Status transitions\<close>

text \<open>
  Claim C1, as the code has it. \<^verbatim>\<open>updateBookStatus(id, 'completed')\<close> with no \<^verbatim>\<open>endDate\<close>
  argument (\<^verbatim>\<open>undefined\<close>, or the empty string, which \<^verbatim>\<open>||\<close> treats alike) stores today's
  date as \<^verbatim>\<open>endDate\<close> of the record found under \<^verbatim>\<open>id\<close>, whatever \<^verbatim>\<open>endDate\<close> held before:
  the spread \<^verbatim>\<open>endDate: endDate || today\<close> does not look at the record's own value. The
  record returned and the record stored are the old one with \<^verbatim>\<open>status\<close> and \<^verbatim>\<open>endDate\<close>
  replaced.
\<close>

theorem updateBookStatus_completed_stamps_today:
  assumes "getBook books i = Some b" and "\<not> truthy e"
  shows "fst (updateBookStatus books i Completed e today books)
           = Inr (b\<lparr>status := Completed, endDate := Some today\<rparr>) \<and>
         getBook (snd (updateBookStatus books i Completed e today books)) i
           = Some (b\<lparr>status := Completed, endDate := Some today\<rparr>)"
proof -
  let ?u = "b\<lparr>status := Completed, endDate := Some today\<rparr>"
  have e: "or_string e today = today"
    using assms(2) by (auto simp: truthy_def or_string_def split: option.splits)
  have i: "id_book ?u = i" using assms(1) by (simp add: getBook_Some_id)
  have upd: "updateBookStatus books i Completed e today books = updateBook books ?u books"
    using assms(1) by (simp add: updateBookStatus_def e)
  have "getBook books (id_book ?u) = Some b" using assms(1) i by simp
  then have "getBook (snd (updateBook books ?u books)) (id_book ?u) = Some ?u"
    unfolding updateBook_snd by (rule getBook_map_replace)
  then show ?thesis using upd i by (simp add: updateBook_fst)
qed

theorem updateBookStatus_completed_stamps_today_witness:
  "getBook INITIAL_BOOKS ''1'' = Some gatsby \<and> \<not> truthy None \<and>
   fst (updateBookStatus INITIAL_BOOKS ''1'' Completed None ''2024-06-01'' INITIAL_BOOKS)
     = Inr (gatsby\<lparr>status := Completed, endDate := Some ''2024-06-01''\<rparr>) \<and>
   getBook (snd (updateBookStatus INITIAL_BOOKS ''1'' Completed None ''2024-06-01'' INITIAL_BOOKS)) ''1''
     = Some (gatsby\<lparr>status := Completed, endDate := Some ''2024-06-01''\<rparr>)"
proof -
  have h: "getBook INITIAL_BOOKS ''1'' = Some gatsby"
    by (simp add: getBook_def INITIAL_BOOKS_def gatsby_def)
  have t: "\<not> truthy None" by (simp add: truthy_def)
  show ?thesis
    using h t updateBookStatus_completed_stamps_today [OF h t, of "''2024-06-01''"] by simp
qed

text \<open>
  Claim C1, as the spec words it, fails: the first sample record is completed with
  \<^verbatim>\<open>endDate\<close> 2023-01-30, and marking it completed again on 2024-06-01, with no
  \<^verbatim>\<open>endDate\<close> argument, leaves 2024-06-01 in the stored record.
\<close>

theorem updateBookStatus_completed_overwrites_endDate:
  "getBook INITIAL_BOOKS ''1'' = Some gatsby \<and> endDate gatsby = Some ''2023-01-30'' \<and>
   map_option endDate
     (getBook (snd (updateBookStatus INITIAL_BOOKS ''1'' Completed None ''2024-06-01'' INITIAL_BOOKS)) ''1'')
     = Some (Some ''2024-06-01'') \<and>
   Some ''2024-06-01'' \<noteq> endDate gatsby"
  by (simp add: updateBookStatus_def updateBook_def setBooks_def getBook_def sample_defs
      or_string_def truthy_def Let_def)

text \<open>
  Claim C3, as the code has it, for the record found under \<^verbatim>\<open>id\<close>: the first record with
  that identifier, which is every record of a collection whose identifiers are pairwise
  distinct. When that record has no \<^verbatim>\<open>startDate\<close> (\<^verbatim>\<open>undefined\<close>, or the empty string, which
  \<^verbatim>\<open>!\<close> treats alike), \<^verbatim>\<open>updateBookStatus(id, 'reading')\<close> returns and stores the record
  with \<^verbatim>\<open>startDate\<close> set to today; the same call on the resulting collection, on whatever
  later day \<open>today'\<close>, returns and stores the very same record, \<^verbatim>\<open>startDate\<close> untouched. The
  date the clock yields is the part of an ISO timestamp before its \<^verbatim>\<open>T\<close>, which is never
  empty: that is the hypothesis on \<open>today\<close>.
\<close>

theorem updateBookStatus_reading_startDate:
  assumes "getBook books i = Some b" and "\<not> truthy (startDate b)" and "today \<noteq> []"
  shows "fst (updateBookStatus books i Reading e today books)
           = Inr (b\<lparr>status := Reading, startDate := Some today\<rparr>) \<and>
         getBook (snd (updateBookStatus books i Reading e today books)) i
           = Some (b\<lparr>status := Reading, startDate := Some today\<rparr>) \<and>
         fst (updateBookStatus (snd (updateBookStatus books i Reading e today books)) i Reading e' today'
                (snd (updateBookStatus books i Reading e today books)))
           = Inr (b\<lparr>status := Reading, startDate := Some today\<rparr>) \<and>
         getBook (snd (updateBookStatus (snd (updateBookStatus books i Reading e today books)) i Reading e' today'
                (snd (updateBookStatus books i Reading e today books)))) i
           = Some (b\<lparr>status := Reading, startDate := Some today\<rparr>)"
proof -
  define u where "u = b\<lparr>status := Reading, startDate := Some today\<rparr>"
  define books' where "books' = snd (updateBookStatus books i Reading e today books)"
  have i: "id_book u = i" using assms(1) by (simp add: u_def getBook_Some_id)
  have upd: "updateBookStatus books i Reading e today books = updateBook books u books"
    using assms(2) by (simp add: updateBookStatus_reading_found [OF assms(1)] u_def)
  have g: "getBook books' i = Some u"
    unfolding books'_def upd using assms(1) i by (rule getBook_updateBook)
  have t: "truthy (startDate u)" using assms(3) by (simp add: truthy_def u_def)
  have same: "u\<lparr>status := Reading\<rparr> = u" by (simp add: u_def)
  have upd': "updateBookStatus books' i Reading e' today' books' = updateBook books' u books'"
    using t by (simp add: updateBookStatus_reading_found [OF g] same)
  have g': "getBook (snd (updateBookStatus books' i Reading e' today' books')) i = Some u"
    unfolding upd' using g i by (rule getBook_updateBook)
  have "fst (updateBookStatus books i Reading e today books) = Inr u"
    by (simp add: upd updateBook_fst)
  moreover have "fst (updateBookStatus books' i Reading e' today' books') = Inr u"
    by (simp add: upd' updateBook_fst)
  ultimately show ?thesis using g g' unfolding books'_def u_def by simp
qed

theorem updateBookStatus_reading_startDate_witness:
  "getBook INITIAL_BOOKS ''3'' = Some orwell1984 \<and> \<not> truthy (startDate orwell1984) \<and> ''2024-06-01'' \<noteq> [] \<and>
   fst (updateBookStatus INITIAL_BOOKS ''3'' Reading None ''2024-06-01'' INITIAL_BOOKS)
     = Inr (orwell1984\<lparr>status := Reading, startDate := Some ''2024-06-01''\<rparr>) \<and>
   fst (updateBookStatus (snd (updateBookStatus INITIAL_BOOKS ''3'' Reading None ''2024-06-01'' INITIAL_BOOKS))
          ''3'' Reading None ''2024-07-15''
          (snd (updateBookStatus INITIAL_BOOKS ''3'' Reading None ''2024-06-01'' INITIAL_BOOKS)))
     = Inr (orwell1984\<lparr>status := Reading, startDate := Some ''2024-06-01''\<rparr>)"
proof -
  have h: "getBook INITIAL_BOOKS ''3'' = Some orwell1984"
    by (simp add: getBook_def sample_defs)
  have t: "\<not> truthy (startDate orwell1984)" by (simp add: truthy_def orwell1984_def)
  have n: "''2024-06-01'' \<noteq> []" by simp
  show ?thesis
    using h t n updateBookStatus_reading_startDate [OF h t n, of None None "''2024-07-15''"] by simp
qed

text \<open>
  Claim C3, as the spec words it, for every record in the collection, fails for a record
  that an earlier one with the same identifier shadows. In \<open>twice\<close> the record added from
  the Dune form is at position 3, under the identifier 1, with no \<^verbatim>\<open>startDate\<close>.
  \<^verbatim>\<open>updateBookStatus('1', 'reading')\<close> finds the first sample record, which has a
  \<^verbatim>\<open>startDate\<close>, and \<^verbatim>\<open>updateBook\<close> puts its copy at both positions: the Dune record is gone
  and no record of the stored collection has today as \<^verbatim>\<open>startDate\<close>.
\<close>

theorem updateBookStatus_reading_shadowed_record:
  "twice ! 3 = newBook dune_as_1 zeros \<and> id_book (newBook dune_as_1 zeros) = ''1'' \<and>
   startDate (newBook dune_as_1 zeros) = None \<and>
   fst (updateBookStatus twice ''1'' Reading None ''2024-06-01'' twice) = Inr (gatsby\<lparr>status := Reading\<rparr>) \<and>
   snd (updateBookStatus twice ''1'' Reading None ''2024-06-01'' twice)
     = [gatsby\<lparr>status := Reading\<rparr>, mockingbird, orwell1984, gatsby\<lparr>status := Reading\<rparr>] \<and>
   map startDate (snd (updateBookStatus twice ''1'' Reading None ''2024-06-01'' twice))
     = [Some ''2023-01-15'', Some ''2023-02-15'', None, Some ''2023-01-15'']"
proof -
  have g: "getBook twice ''1'' = Some gatsby"
    by (simp add: twice_eq getBook_def INITIAL_BOOKS_def gatsby_def)
  have t: "truthy (startDate gatsby)" by (simp add: truthy_def gatsby_def)
  have u: "updateBookStatus twice ''1'' Reading None ''2024-06-01'' twice
             = updateBook twice (gatsby\<lparr>status := Reading\<rparr>) twice"
    using t by (simp add: updateBookStatus_reading_found [OF g])
  have n: "twice ! 3 = newBook dune_as_1 zeros" by (simp add: twice_eq INITIAL_BOOKS_def)
  have d: "startDate (newBook dune_as_1 zeros) = None"
    by (simp add: newBook_def dune_as_1_def dune_def)
  have s: "snd (updateBook twice (gatsby\<lparr>status := Reading\<rparr>) twice)
             = [gatsby\<lparr>status := Reading\<rparr>, mockingbird, orwell1984, gatsby\<lparr>status := Reading\<rparr>]"
    by (simp add: updateBook_snd twice_eq newBook_dune_as_1_id INITIAL_BOOKS_def)
       (simp add: gatsby_def mockingbird_def orwell1984_def)
  have m: "startDate gatsby = Some ''2023-01-15''" "startDate mockingbird = Some ''2023-02-15''"
    "startDate orwell1984 = None"
    by (simp_all add: gatsby_def mockingbird_def orwell1984_def)
  show ?thesis by (simp add: u s m n d newBook_dune_as_1_id updateBook_fst)
qed

section \<open>Unknown identifiers\<close>

text \<open>
  Claim C4. When no record has the identifier, \<^verbatim>\<open>updateBookStatus\<close> and
  \<^verbatim>\<open>updateBookProgress\<close> throw the error "Book with id ... not found" instead of
  returning a record, and the state cell keeps the value it had: the \<^verbatim>\<open>throw\<close> comes
  before any \<^verbatim>\<open>setBooks\<close>.
\<close>

theorem update_status_progress_not_found:
  "getBook books i = None \<Longrightarrow>
     updateBookStatus books i st e today pending = (Inl (notFound i), pending) \<and>
     updateBookProgress books i page todayStatus todayStart todayEnd pending = (Inl (notFound i), pending)"
  by (simp add: updateBookStatus_def updateBookProgress_def)

theorem update_status_progress_not_found_witness:
  "getBook INITIAL_BOOKS ''4'' = None \<and>
   updateBookStatus INITIAL_BOOKS ''4'' Reading None ''2024-06-01'' INITIAL_BOOKS
     = (Inl (Error ''Book with id 4 not found''), INITIAL_BOOKS) \<and>
   updateBookProgress INITIAL_BOOKS ''4'' 10 ''2024-06-01'' ''2024-06-01'' ''2024-06-01'' INITIAL_BOOKS
     = (Inl (Error ''Book with id 4 not found''), INITIAL_BOOKS)"
proof -
  have h: "getBook INITIAL_BOOKS ''4'' = None"
    by (simp add: getBook_def sample_defs)
  show ?thesis
    using h update_status_progress_not_found [OF h, of Reading None "''2024-06-01''" INITIAL_BOOKS 10
        "''2024-06-01''" "''2024-06-01''" "''2024-06-01''"]
    by (simp add: notFound_def)
qed

text \<open>
  Claim C5. \<^verbatim>\<open>updateBook\<close> with a book whose identifier no record has stores a
  collection equal to the one it read, and resolves to the book it was given: no error
  reaches the caller.
\<close>

theorem updateBook_absent_noop:
  "getBook books (id_book u) = None \<Longrightarrow> updateBook books u books = (Inr u, books)"
  by (simp add: updateBook_def setBooks_def map_replace_absent)

theorem updateBook_absent_noop_witness:
  "getBook INITIAL_BOOKS (id_book (newBook dune zeros)) = None \<and>
   updateBook INITIAL_BOOKS (newBook dune zeros) INITIAL_BOOKS
     = (Inr (newBook dune zeros), INITIAL_BOOKS)"
proof -
  have h: "getBook INITIAL_BOOKS (id_book (newBook dune zeros)) = None"
    by (simp add: getBook_def sample_defs newBook_def dune_def or_string_def generateUUID_zeros)
  show ?thesis using h updateBook_absent_noop [OF h] by simp
qed

section \<open>Progress\<close>

text \<open>
  Claim C2, at a record whose \<^verbatim>\<open>pageCount\<close> is not known. Dune is added from the form,
  which has no \<^verbatim>\<open>pageCount\<close>; \<^verbatim>\<open>updateBookProgress\<close> to page 5 then returns the record
  completed, with today as \<^verbatim>\<open>endDate\<close>: \<^verbatim>\<open>bookToUpdate.pageCount || 0\<close> is 0, and 5 is not
  below 0. The comment on that spread reads "If reached the end of the book, mark as
  completed", and the detail screen refuses a progress update when \<^verbatim>\<open>!book.pageCount\<close>.
\<close>

theorem updateBookProgress_unknown_pageCount_completes:
  "pageCount (newBook dune zeros) = None \<and>
   getBook (INITIAL_BOOKS @ [newBook dune zeros]) (id_book (newBook dune zeros)) = Some (newBook dune zeros) \<and>
   fst (updateBookProgress (INITIAL_BOOKS @ [newBook dune zeros]) (id_book (newBook dune zeros)) 5 ''2024-06-01'' ''2024-06-01'' ''2024-06-01''
          (INITIAL_BOOKS @ [newBook dune zeros]))
     = Inr ((newBook dune zeros)\<lparr>currentPage := Some 5, status := Completed,
              startDate := Some ''2024-06-01'', endDate := Some ''2024-06-01''\<rparr>)"
proof -
  have g: "getBook (INITIAL_BOOKS @ [newBook dune zeros]) (id_book (newBook dune zeros)) = Some (newBook dune zeros)"
    by (simp add: getBook_def sample_defs newBook_dune_id)
  have p: "pageCount (newBook dune zeros) = None" "startDate (newBook dune zeros) = None"
    by (simp_all add: newBook_def dune_def)
  show ?thesis
    by (simp add: g p updateBookProgress_found [OF g] updateBook_fst or_number_def truthy_def)
qed

text \<open>
  Claim C9, as the code has it. \<^verbatim>\<open>updateBookProgress(id, currentPage)\<close> on a record found
  under \<^verbatim>\<open>id\<close> returns and stores a record whose \<^verbatim>\<open>currentPage\<close> is the page passed, as
  it is, and whose \<^verbatim>\<open>pageCount\<close> is the old one; when \<^verbatim>\<open>pageCount\<close> is present, the status
  is completed if the page reaches or exceeds it and reading otherwise. So a page beyond
  \<^verbatim>\<open>pageCount\<close> is stored, in a record marked completed.
\<close>

theorem updateBookProgress_stores_page:
  assumes "getBook books i = Some b"
  shows "\<exists>b'. fst (updateBookProgress books i page todayStatus todayStart todayEnd books) = Inr b' \<and>
              getBook (snd (updateBookProgress books i page todayStatus todayStart todayEnd books)) i = Some b' \<and>
              currentPage b' = Some page \<and> pageCount b' = pageCount b \<and>
              (\<forall>n. pageCount b = Some n \<longrightarrow> status b' = (if n \<le> page then Completed else Reading))"
proof -
  define b' where "b' =
       (let b2 = (if truthy (startDate b) then b\<lparr>currentPage := Some page, status := Reading\<rparr>
                  else b\<lparr>currentPage := Some page, status := Reading, startDate := Some todayStart\<rparr>)
        in if page \<ge> or_number (pageCount b) 0
           then b2\<lparr>status := Completed, endDate := Some todayEnd\<rparr> else b2)"
  have upd: "updateBookProgress books i page todayStatus todayStart todayEnd books = updateBook books b' books"
    unfolding b'_def by (rule updateBookProgress_found [OF assms])
  have i: "id_book b' = i" using assms by (simp add: b'_def Let_def getBook_Some_id)
  have "getBook (snd (updateBookProgress books i page todayStatus todayStart todayEnd books)) i = Some b'"
    unfolding upd using assms i by (rule getBook_updateBook)
  moreover have "fst (updateBookProgress books i page todayStatus todayStart todayEnd books) = Inr b'"
    by (simp add: upd updateBook_fst)
  moreover have "currentPage b' = Some page" "pageCount b' = pageCount b"
    by (simp_all add: b'_def Let_def)
  moreover have "\<forall>n. pageCount b = Some n \<longrightarrow> status b' = (if n \<le> page then Completed else Reading)"
    by (auto simp: b'_def Let_def or_number_def)
  ultimately show ?thesis by blast
qed

theorem updateBookProgress_stores_page_witness:
  "getBook INITIAL_BOOKS ''2'' = Some mockingbird \<and> pageCount mockingbird = Some 281 \<and>
   (\<exists>b'. fst (updateBookProgress INITIAL_BOOKS ''2'' 500 ''2024-06-01'' ''2024-06-01'' ''2024-06-01'' INITIAL_BOOKS) = Inr b' \<and>
         getBook (snd (updateBookProgress INITIAL_BOOKS ''2'' 500 ''2024-06-01'' ''2024-06-01'' ''2024-06-01'' INITIAL_BOOKS)) ''2'' = Some b' \<and>
         currentPage b' = Some 500 \<and> pageCount b' = Some 281 \<and> status b' = Completed)"
proof -
  have h: "getBook INITIAL_BOOKS ''2'' = Some mockingbird"
    by (simp add: getBook_def sample_defs)
  have p: "pageCount mockingbird = Some 281" by (simp add: mockingbird_def)
  show ?thesis
    using h p updateBookProgress_stores_page [OF h, of 500 "''2024-06-01''" "''2024-06-01''" "''2024-06-01''"] by auto
qed

text \<open>
  Claim C9, as the spec words it, fails: the second sample record has 281 pages, and
  after \<^verbatim>\<open>updateBookProgress\<close> to page 500 the stored record has \<^verbatim>\<open>currentPage\<close> 500.
\<close>

theorem updateBookProgress_page_exceeds_pageCount:
  "getBook (snd (updateBookProgress INITIAL_BOOKS ''2'' 500 ''2024-06-01'' ''2024-06-01'' ''2024-06-01'' INITIAL_BOOKS)) ''2''
     = Some (mockingbird\<lparr>currentPage := Some 500, status := Completed, endDate := Some ''2024-06-01''\<rparr>) \<and>
   pageCount mockingbird = Some 281 \<and> \<not> (500::int) \<le> 281"
proof -
  have h: "getBook INITIAL_BOOKS ''2'' = Some mockingbird"
    by (simp add: getBook_def sample_defs)
  have p: "pageCount mockingbird = Some 281" "truthy (startDate mockingbird)" "id_book mockingbird = ''2''"
    by (simp_all add: mockingbird_def truthy_def)
  show ?thesis
    by (simp add: p updateBookProgress_found [OF h] or_number_def getBook_updateBook [OF h])
qed

section \<open>Adding, deleting and replacing records\<close>

text \<open>
  Claim C6, for a collection whose identifiers are pairwise distinct: when a record has
  the identifier, \<^verbatim>\<open>getBook\<close> on the collection \<^verbatim>\<open>deleteBook\<close> stores finds nothing under it,
  and that collection is shorter by exactly one.
\<close>

theorem deleteBook_then_getBook:
  assumes "distinct (map id_book books)" and "getBook books i \<noteq> None"
  shows "getBook (snd (deleteBook books i books)) i = None \<and>
         length (snd (deleteBook books i books)) + 1 = length books"
  using assms length_filter_distinct [of books i]
  by (simp add: deleteBook_def setBooks_def getBook_filter_None getBook_None_iff)

theorem deleteBook_then_getBook_witness:
  "distinct (map id_book INITIAL_BOOKS) \<and> getBook INITIAL_BOOKS ''2'' \<noteq> None \<and>
   getBook (snd (deleteBook INITIAL_BOOKS ''2'' INITIAL_BOOKS)) ''2'' = None \<and>
   length (snd (deleteBook INITIAL_BOOKS ''2'' INITIAL_BOOKS)) + 1 = length INITIAL_BOOKS"
proof -
  have d: "distinct (map id_book INITIAL_BOOKS)" by (simp add: sample_defs)
  have h: "getBook INITIAL_BOOKS ''2'' \<noteq> None" by (simp add: getBook_def sample_defs)
  show ?thesis using d h deleteBook_then_getBook [OF d h] by simp
qed

text \<open>
  Claim C6, as the spec words it, fails where two records share the identifier: the
  filter drops both. The collection \<open>twice\<close> has four records, two of them under 1, and
  two records are left after \<^verbatim>\<open>deleteBook('1')\<close>.
\<close>

theorem deleteBook_duplicate_ids_removes_two:
  "getBook twice ''1'' \<noteq> None \<and> length twice = 4 \<and> length (snd (deleteBook twice ''1'' twice)) = 2"
  by (simp add: twice_eq deleteBook_def setBooks_def getBook_def sample_defs newBook_dune_as_1_id)

text \<open>
  Claim C7, when no record of the collection has the identifier the new record gets (the
  one the caller supplied, if it is a non-empty string, and the generated one otherwise):
  \<^verbatim>\<open>addBook\<close> resolves to the new record, whose identifier is not empty and whose other
  fields are those of the form, and \<^verbatim>\<open>getBook\<close> on the stored collection finds that
  record under its identifier.
\<close>

theorem addBook_then_getBook:
  assumes "getBook books (id_book (newBook d rnd)) = None"
  shows "fst (addBook books d rnd books) = Inr (newBook d rnd) \<and>
         id_book (newBook d rnd) = or_string (id_book d) (generateUUID rnd) \<and>
         id_book (newBook d rnd) \<noteq> [] \<and>
         getBook (snd (addBook books d rnd books)) (id_book (newBook d rnd)) = Some (newBook d rnd) \<and>
         title (newBook d rnd) = title d \<and> author (newBook d rnd) = author d \<and>
         genre (newBook d rnd) = genre d \<and> publicationDate (newBook d rnd) = publicationDate d \<and>
         pageCount (newBook d rnd) = pageCount d \<and> coverImage (newBook d rnd) = coverImage d \<and>
         status (newBook d rnd) = status d \<and> currentPage (newBook d rnd) = currentPage d \<and>
         startDate (newBook d rnd) = startDate d \<and> endDate (newBook d rnd) = endDate d \<and>
         isbn (newBook d rnd) = isbn d \<and> publisher (newBook d rnd) = publisher d \<and>
         language (newBook d rnd) = language d \<and> notes_book (newBook d rnd) = notes_book d \<and>
         rating (newBook d rnd) = rating d"
proof -
  have "getBook (snd (addBook books d rnd books)) (id_book (newBook d rnd)) = Some (newBook d rnd)"
    using assms by (simp add: addBook_eq getBook_append_absent)
  moreover have "fst (addBook books d rnd books) = Inr (newBook d rnd)"
    by (simp add: addBook_eq)
  moreover note newBook_id_nonempty [of d rnd]
  ultimately show ?thesis by (simp add: newBook_def)
qed

theorem addBook_then_getBook_witness:
  "getBook INITIAL_BOOKS (id_book (newBook dune zeros)) = None \<and>
   fst (addBook INITIAL_BOOKS dune zeros INITIAL_BOOKS) = Inr (newBook dune zeros) \<and>
   id_book (newBook dune zeros) = ''00000000-0000-4000-8000-000000000000'' \<and>
   getBook (snd (addBook INITIAL_BOOKS dune zeros INITIAL_BOOKS)) ''00000000-0000-4000-8000-000000000000''
     = Some (newBook dune zeros) \<and>
   title (newBook dune zeros) = ''Dune''"
proof -
  have h: "getBook INITIAL_BOOKS (id_book (newBook dune zeros)) = None"
    by (simp add: getBook_def sample_defs newBook_dune_id)
  have t: "title (newBook dune zeros) = ''Dune''" by (simp add: newBook_def dune_def)
  from addBook_then_getBook [OF h]
  have "fst (addBook INITIAL_BOOKS dune zeros INITIAL_BOOKS) = Inr (newBook dune zeros)"
    and "getBook (snd (addBook INITIAL_BOOKS dune zeros INITIAL_BOOKS)) (id_book (newBook dune zeros))
           = Some (newBook dune zeros)"
    by blast+
  then show ?thesis using h t by (simp add: newBook_dune_id)
qed

text \<open>
  Claim C7, as the spec words it, fails for a form that carries the identifier of a
  record already there: \<^verbatim>\<open>find\<close> returns the first match, the old record.
\<close>

theorem addBook_existing_id_getBook:
  "fst (addBook INITIAL_BOOKS dune_as_1 zeros INITIAL_BOOKS) = Inr (newBook dune_as_1 zeros) \<and>
   getBook (snd (addBook INITIAL_BOOKS dune_as_1 zeros INITIAL_BOOKS)) (id_book (newBook dune_as_1 zeros))
     = Some gatsby \<and>
   gatsby \<noteq> newBook dune_as_1 zeros"
  by (simp add: addBook_eq getBook_def sample_defs newBook_def dune_as_1_def dune_def or_string_def)

text \<open>
  Claim C8, as the code has it. From a collection whose identifiers are pairwise
  distinct, \<^verbatim>\<open>updateBook\<close>, \<^verbatim>\<open>deleteBook\<close>, \<^verbatim>\<open>updateBookStatus\<close> and \<^verbatim>\<open>updateBookProgress\<close>
  store a collection whose identifiers are pairwise distinct, for every input; \<^verbatim>\<open>addBook\<close>
  does so exactly when no record has the identifier the new record gets.
\<close>

theorem store_preserves_distinct_ids:
  assumes "distinct (map id_book books)"
  shows "(distinct (map id_book (snd (addBook books d rnd books)))
            \<longleftrightarrow> getBook books (id_book (newBook d rnd)) = None) \<and>
         distinct (map id_book (snd (updateBook books u books))) \<and>
         distinct (map id_book (snd (deleteBook books i books))) \<and>
         distinct (map id_book (snd (updateBookStatus books j st e today books))) \<and>
         distinct (map id_book (snd (updateBookProgress books k page todayStatus todayStart todayEnd books)))"
proof -
  have "distinct (map id_book (snd (addBook books d rnd books)))
            \<longleftrightarrow> getBook books (id_book (newBook d rnd)) = None"
    using assms by (simp add: addBook_eq getBook_None_iff)
  moreover have "distinct (map id_book (snd (deleteBook books i books)))"
    using assms by (simp add: deleteBook_def setBooks_def distinct_map_filter)
  ultimately show ?thesis
    using assms by (simp add: ids_updateBook ids_updateBookStatus ids_updateBookProgress)
qed

theorem store_preserves_distinct_ids_witness:
  "distinct (map id_book INITIAL_BOOKS) \<and>
   getBook INITIAL_BOOKS (id_book (newBook dune zeros)) = None \<and>
   distinct (map id_book (snd (addBook INITIAL_BOOKS dune zeros INITIAL_BOOKS))) \<and>
   distinct (map id_book (snd (updateBook INITIAL_BOOKS gatsby INITIAL_BOOKS))) \<and>
   distinct (map id_book (snd (deleteBook INITIAL_BOOKS ''2'' INITIAL_BOOKS))) \<and>
   distinct (map id_book (snd (updateBookStatus INITIAL_BOOKS ''3'' Reading None ''2024-06-01'' INITIAL_BOOKS))) \<and>
   distinct (map id_book (snd (updateBookProgress INITIAL_BOOKS ''2'' 130 ''2024-06-01'' ''2024-06-01'' ''2024-06-01'' INITIAL_BOOKS)))"
proof -
  have d: "distinct (map id_book INITIAL_BOOKS)" by (simp add: sample_defs)
  have h: "getBook INITIAL_BOOKS (id_book (newBook dune zeros)) = None"
    by (simp add: getBook_def sample_defs newBook_dune_id)
  show ?thesis
    using d h store_preserves_distinct_ids [OF d, of dune zeros gatsby "''2''" "''3''" Reading None
        "''2024-06-01''" "''2''" 130 "''2024-06-01''" "''2024-06-01''" "''2024-06-01''"]
    by simp
qed

text \<open>
  Claim C8, as the spec words it, fails for \<^verbatim>\<open>addBook\<close> with a caller-supplied identifier:
  the sample set has distinct identifiers, and adding a form with the identifier 1 gives
  a collection that has it twice.
\<close>

theorem addBook_existing_id_not_distinct:
  "distinct (map id_book INITIAL_BOOKS) \<and>
   \<not> distinct (map id_book (snd (addBook INITIAL_BOOKS dune_as_1 zeros INITIAL_BOOKS)))"
  by (simp add: addBook_eq newBook_dune_as_1_id sample_defs)

text \<open>
  Claim C10, as the code has it. \<^verbatim>\<open>addBook\<close> stores the old collection followed by the
  new record. \<^verbatim>\<open>updateBook\<close> stores a collection of the same length in which every
  position whose record has the identifier of the book holds the book, and every other
  position holds what it held; when the identifiers are pairwise distinct, that is the
  old collection with the one matching position replaced.
\<close>

theorem addBook_updateBook_frame:
  "snd (addBook books d rnd books) = books @ [newBook d rnd] \<and>
   length (snd (updateBook books u books)) = length books \<and>
   (\<forall>k<length books. snd (updateBook books u books) ! k
        = (if id_book (books ! k) = id_book u then u else books ! k)) \<and>
   (distinct (map id_book books) \<longrightarrow>
      (\<forall>k<length books. id_book (books ! k) = id_book u \<longrightarrow>
          snd (updateBook books u books) = books[k := u]))"
  by (simp add: addBook_eq updateBook_snd map_replace_distinct)

theorem addBook_updateBook_frame_witness:
  "distinct (map id_book INITIAL_BOOKS) \<and> (1::nat) < length INITIAL_BOOKS \<and>
   id_book (INITIAL_BOOKS ! 1) = id_book (mockingbird\<lparr>currentPage := Some 150\<rparr>) \<and>
   snd (updateBook INITIAL_BOOKS (mockingbird\<lparr>currentPage := Some 150\<rparr>) INITIAL_BOOKS)
     = [gatsby, mockingbird\<lparr>currentPage := Some 150\<rparr>, orwell1984] \<and>
   snd (updateBook INITIAL_BOOKS (mockingbird\<lparr>currentPage := Some 150\<rparr>) INITIAL_BOOKS) ! 0 = gatsby"
proof -
  have d: "distinct (map id_book INITIAL_BOOKS)" by (simp add: sample_defs)
  have l: "(1::nat) < length INITIAL_BOOKS" "(0::nat) < length INITIAL_BOOKS"
    by (simp_all add: INITIAL_BOOKS_def)
  have m: "id_book (INITIAL_BOOKS ! 1) = id_book (mockingbird\<lparr>currentPage := Some 150\<rparr>)"
    by (simp add: INITIAL_BOOKS_def)
  have z: "id_book (INITIAL_BOOKS ! 0) \<noteq> id_book (mockingbird\<lparr>currentPage := Some 150\<rparr>)"
    by (simp add: sample_defs)
  have u: "INITIAL_BOOKS[1 := mockingbird\<lparr>currentPage := Some 150\<rparr>]
             = [gatsby, mockingbird\<lparr>currentPage := Some 150\<rparr>, orwell1984]"
    by (simp add: INITIAL_BOOKS_def)
  have g: "INITIAL_BOOKS ! 0 = gatsby" by (simp add: INITIAL_BOOKS_def)
  from addBook_updateBook_frame [of INITIAL_BOOKS dune zeros "mockingbird\<lparr>currentPage := Some 150\<rparr>"]
    d l m z
  have "snd (updateBook INITIAL_BOOKS (mockingbird\<lparr>currentPage := Some 150\<rparr>) INITIAL_BOOKS)
          = INITIAL_BOOKS[1 := mockingbird\<lparr>currentPage := Some 150\<rparr>]"
    and "snd (updateBook INITIAL_BOOKS (mockingbird\<lparr>currentPage := Some 150\<rparr>) INITIAL_BOOKS) ! 0
          = INITIAL_BOOKS ! 0"
    by metis+
  then show ?thesis using d l m u g by simp
qed

text \<open>
  Claim C10, as the spec words it, fails where two records share the identifier: in
  \<open>twice\<close> the records at positions 0 and 3 are both under 1, and \<^verbatim>\<open>updateBook\<close> with the
  re-rated first record replaces the one at position 3 as well, so that the result is
  not the collection with position 0 alone replaced.
\<close>

theorem updateBook_duplicate_ids_changes_two:
  "id_book (twice ! 0) = id_book gatsby_rated \<and> id_book (twice ! 3) = id_book gatsby_rated \<and>
   twice ! 3 = newBook dune_as_1 zeros \<and>
   snd (updateBook twice gatsby_rated twice) ! 3 = gatsby_rated \<and>
   gatsby_rated \<noteq> newBook dune_as_1 zeros \<and>
   snd (updateBook twice gatsby_rated twice) \<noteq> twice[0 := gatsby_rated]"
  by (simp add: twice_eq updateBook_snd gatsby_rated_def sample_defs newBook_def dune_as_1_def dune_def or_string_def)

end
